theory Spec2Isabelle
  imports Main "HOL-Library.Word"
begin

section \<open>Byte-level patch scripts: the embedding\<close>

text \<open>
  The repository holds two scripts, \<^verbatim>\<open>patch_ctf_respawn.py\<close> and
  \<^verbatim>\<open>patch_ctf_flags_map.py\<close>. Each defines a function \<^verbatim>\<open>patch_file(filename,
  offset, original_hex, new_hex)\<close> that checks a window of a binary file against two
  byte strings and overwrites it when it holds the first. The functions return nothing:
  what they do is print status lines and, in one branch, write to the file. The model
  returns all of that as a value: the branch taken, the printed lines, the file
  operations performed, and the file system afterwards.
\<close>

subsection \<open>Bytes, files and the file system\<close>

type_synonym byte = "8 word"
type_synonym bytes = "byte list"

text \<open>
  A path names nothing, a regular file with its bytes, or something that exists but that
  \<^verbatim>\<open>open(filename, "r+b")\<close> refuses with an \<^verbatim>\<open>IOError\<close> (a directory, a file
  without read and write permission).
\<close>

datatype node = Regular bytes | Unopenable

type_synonym filesystem = "string \<rightharpoonup> node"

definition path_exists :: "filesystem \<Rightarrow> string \<Rightarrow> bool" where
  \<comment> \<open>\<^verbatim>\<open>os.path.exists(filename)\<close>\<close>
  "path_exists fs filename = (case fs filename of None \<Rightarrow> False | Some _ \<Rightarrow> True)"

datatype io_event = Open string | Seek nat | Read nat | Write bytes

text \<open>
  An open binary file: its bytes, the position of the next read or write, and the
  operations performed on it so far, oldest first.
\<close>

record handle =
  data :: bytes
  pos :: nat
  log :: "io_event list"

definition open_rb_plus :: "filesystem \<Rightarrow> string \<Rightarrow> handle option" where
  \<comment> \<open>\<^verbatim>\<open>open(filename, "r+b")\<close>: no truncation, position 0; None stands for the IOError\<close>
  "open_rb_plus fs filename =
     (case fs filename of
        Some (Regular content) \<Rightarrow> Some \<lparr>data = content, pos = 0, log = [Open filename]\<rparr>
      | _ \<Rightarrow> None)"

definition seek :: "nat \<Rightarrow> handle \<Rightarrow> handle" where
  \<comment> \<open>\<^verbatim>\<open>f.seek(offset)\<close>: an absolute position, which may lie beyond the end of the file\<close>
  "seek offset f = f\<lparr>pos := offset, log := log f @ [Seek offset]\<rparr>"

definition read :: "nat \<Rightarrow> handle \<Rightarrow> bytes \<times> handle" where
  \<comment> \<open>\<^verbatim>\<open>f.read(n)\<close>: at most n bytes, fewer at the end of the file, none beyond it\<close>
  "read n f =
     (let got = take n (drop (pos f) (data f))
      in (got, f\<lparr>pos := pos f + length got, log := log f @ [Read n]\<rparr>))"

definition write_at :: "bytes \<Rightarrow> nat \<Rightarrow> bytes \<Rightarrow> bytes" where
  \<comment> \<open>the bytes of a file after writing bs at position p: an overwrite in place, which
      extends the file when it runs past the end and fills a gap before p with zero
      bytes; writing no bytes changes nothing\<close>
  "write_at content p bs =
     (if bs = [] then content
      else take p content @ replicate (p - length content) 0 @ bs
           @ drop (p + length bs) content)"

definition write_bytes :: "bytes \<Rightarrow> handle \<Rightarrow> handle" where
  \<comment> \<open>\<^verbatim>\<open>f.write(bs)\<close>\<close>
  "write_bytes bs f =
     f\<lparr>data := write_at (data f) (pos f) bs, pos := pos f + length bs,
       log := log f @ [Write bs]\<rparr>"

definition close :: "filesystem \<Rightarrow> string \<Rightarrow> handle \<Rightarrow> filesystem" where
  \<comment> \<open>leaving the \<^verbatim>\<open>with\<close> block: the file holds the handle's bytes\<close>
  "close fs filename f = fs(filename \<mapsto> Regular (data f))"

subsection \<open>Hexadecimal text\<close>

text \<open>
  \<^verbatim>\<open>binascii.unhexlify\<close> on a \<^verbatim>\<open>str\<close> raises \<^verbatim>\<open>ValueError\<close> when the string has
  a character outside ASCII, and \<^verbatim>\<open>binascii.Error\<close> when its length is odd or a
  character is no hexadecimal digit. \<^verbatim>\<open>binascii.Error\<close> is a subclass of
  \<^verbatim>\<open>ValueError\<close>, so a handler for \<^verbatim>\<open>binascii.Error\<close> does not catch the first.
\<close>

datatype py_exception = BinasciiError | ValueError

definition is_ascii :: "char \<Rightarrow> bool" where
  "is_ascii c = ((of_char c :: nat) < 128)"

definition hex_digit_value :: "char \<Rightarrow> nat option" where
  "hex_digit_value c =
     (let n = (of_char c :: nat)
      in if 48 \<le> n \<and> n \<le> 57 then Some (n - 48)
         else if 97 \<le> n \<and> n \<le> 102 then Some (n - 87)
         else if 65 \<le> n \<and> n \<le> 70 then Some (n - 55)
         else None)"

fun a2b_hex :: "string \<Rightarrow> py_exception + bytes" where
  "a2b_hex [] = Inr []"
| "a2b_hex [c] = Inl BinasciiError"
| "a2b_hex (c # d # rest) =
     (case hex_digit_value c of
        None \<Rightarrow> Inl BinasciiError
      | Some hi \<Rightarrow>
          (case hex_digit_value d of
             None \<Rightarrow> Inl BinasciiError
           | Some lo \<Rightarrow>
               (case a2b_hex rest of
                  Inl e \<Rightarrow> Inl e
                | Inr bs \<Rightarrow> Inr (of_nat (16 * hi + lo) # bs))))"

definition unhexlify :: "string \<Rightarrow> py_exception + bytes" where
  "unhexlify s =
     (if \<not> list_all is_ascii s then Inl ValueError
      else if odd (length s) then Inl BinasciiError
      else a2b_hex s)"

definition replace_spaces :: "string \<Rightarrow> string" where
  \<comment> \<open>\<^verbatim>\<open>s.replace(" ", "")\<close>\<close>
  "replace_spaces s = filter (\<lambda>c. c \<noteq> CHR '' '') s"

definition hex_char :: "nat \<Rightarrow> char" where
  "hex_char n = ''0123456789abcdef'' ! (n mod 16)"

definition hexlify :: "bytes \<Rightarrow> string" where
  \<comment> \<open>\<^verbatim>\<open>binascii.hexlify(bs).decode('utf-8')\<close>: two lower-case digits a byte\<close>
  "hexlify bs = concat (map (\<lambda>b. [hex_char (unat b div 16), hex_char (unat b mod 16)]) bs)"

subsection \<open>What a call does\<close>

text \<open>
  The branch a call ends in. The first six are the outcomes the scripts report
  (\<^verbatim>\<open>[ERROR] File not found\<close>, \<^verbatim>\<open>[ERROR] Invalid hex data\<close>, \<^verbatim>\<open>[SUCCESS]\<close>,
  \<^verbatim>\<open>[INFO] ... ALREADY PATCHED\<close>, \<^verbatim>\<open>[FAIL] Byte mismatch\<close>, \<^verbatim>\<open>[ERROR] Could not
  open/write file\<close>); the last is the \<^verbatim>\<open>ValueError\<close> of \<^verbatim>\<open>unhexlify\<close> that no handler
  catches and that leaves the function, and the script, as an exception.
\<close>

datatype result =
  NotFound | MalformedHex | Applied | AlreadyApplied | Mismatch | IOFailure
  | UncaughtValueError

text \<open>
  The offset is a natural number: the scripts pass \<^verbatim>\<open>0x249DCD\<close>, \<^verbatim>\<open>0x250E3D\<close>,
  \<^verbatim>\<open>0x249E80\<close> and \<^verbatim>\<open>0x250EF0\<close>, and the descriptor's offset is a non-negative
  position in the file. Of the failures of the operating system the model has the one at
  \<^verbatim>\<open>open\<close>; a device that fails in the middle of a read or a write is outside it.
\<close>

datatype message =
  Processing string
  | ErrorFileNotFound string
  | ErrorInvalidHex
  | WarningLength nat nat
  | OkOriginalMatch nat
  | SuccessPatched string
  | InfoAlreadyPatched
  | FailByteMismatch nat
  | Expected string
  | Found string
  | Aborting
  | ErrorCouldNotOpen
  | Newline

record outcome =
  status :: result
  printed :: "message list"
  trace :: "io_event list"
  files :: filesystem

definition respawn_patch_file ::
  "filesystem \<Rightarrow> string \<Rightarrow> nat \<Rightarrow> string \<Rightarrow> string \<Rightarrow> outcome" where
  \<comment> \<open>\<^verbatim>\<open>patch_file\<close> of \<^verbatim>\<open>patch_ctf_respawn.py\<close>\<close>
  "respawn_patch_file fs filename offset original_hex new_hex =
     (if \<not> path_exists fs filename then
        \<lparr>status = NotFound,
         printed = [Processing filename, ErrorFileNotFound filename],
         trace = [], files = fs\<rparr>
      else
        case unhexlify (replace_spaces original_hex) of
          Inl BinasciiError \<Rightarrow>
            \<lparr>status = MalformedHex, printed = [Processing filename, ErrorInvalidHex],
             trace = [], files = fs\<rparr>
        | Inl ValueError \<Rightarrow>
            \<lparr>status = UncaughtValueError, printed = [Processing filename],
             trace = [], files = fs\<rparr>
        | Inr orig_bytes \<Rightarrow>
           (case unhexlify (replace_spaces new_hex) of
              Inl BinasciiError \<Rightarrow>
                \<lparr>status = MalformedHex, printed = [Processing filename, ErrorInvalidHex],
                 trace = [], files = fs\<rparr>
            | Inl ValueError \<Rightarrow>
                \<lparr>status = UncaughtValueError, printed = [Processing filename],
                 trace = [], files = fs\<rparr>
            | Inr new_bytes \<Rightarrow>
               (let warning =
                      (if length orig_bytes \<noteq> length new_bytes
                       then [WarningLength (length new_bytes) (length orig_bytes)]
                       else [])
                in case open_rb_plus fs filename of
                     None \<Rightarrow>
                       \<lparr>status = IOFailure,
                        printed = [Processing filename] @ warning
                                  @ [ErrorCouldNotOpen, Newline],
                        trace = [Open filename], files = fs\<rparr>
                   | Some f0 \<Rightarrow>
                      (let f1 = seek offset f0;
                           (current_data, f2) = read (length orig_bytes) f1
                       in if current_data = orig_bytes then
                            (let f3 = seek offset f2;
                                 f4 = write_bytes new_bytes f3
                             in \<lparr>status = Applied,
                                 printed = [Processing filename] @ warning
                                           @ [OkOriginalMatch offset,
                                              SuccessPatched filename, Newline],
                                 trace = log f4, files = close fs filename f4\<rparr>)
                          else if current_data = new_bytes then
                            \<lparr>status = AlreadyApplied,
                             printed = [Processing filename] @ warning
                                       @ [InfoAlreadyPatched, Newline],
                             trace = log f2, files = close fs filename f2\<rparr>
                          else
                            \<lparr>status = Mismatch,
                             printed = [Processing filename] @ warning
                                       @ [FailByteMismatch offset,
                                          Expected (hexlify orig_bytes),
                                          Found (hexlify current_data),
                                          Aborting, Newline],
                             trace = log f2, files = close fs filename f2\<rparr>))))"

definition flags_map_patch_file ::
  "filesystem \<Rightarrow> string \<Rightarrow> nat \<Rightarrow> string \<Rightarrow> string \<Rightarrow> outcome" where
  \<comment> \<open>\<^verbatim>\<open>patch_file\<close> of \<^verbatim>\<open>patch_ctf_flags_map.py\<close>\<close>
  "flags_map_patch_file fs filename offset original_hex new_hex =
     (if \<not> path_exists fs filename then
        \<lparr>status = NotFound,
         printed = [Processing filename, ErrorFileNotFound filename],
         trace = [], files = fs\<rparr>
      else
        case unhexlify (replace_spaces original_hex) of
          Inl BinasciiError \<Rightarrow>
            \<lparr>status = MalformedHex, printed = [Processing filename, ErrorInvalidHex],
             trace = [], files = fs\<rparr>
        | Inl ValueError \<Rightarrow>
            \<lparr>status = UncaughtValueError, printed = [Processing filename],
             trace = [], files = fs\<rparr>
        | Inr orig_bytes \<Rightarrow>
           (case unhexlify (replace_spaces new_hex) of
              Inl BinasciiError \<Rightarrow>
                \<lparr>status = MalformedHex, printed = [Processing filename, ErrorInvalidHex],
                 trace = [], files = fs\<rparr>
            | Inl ValueError \<Rightarrow>
                \<lparr>status = UncaughtValueError, printed = [Processing filename],
                 trace = [], files = fs\<rparr>
            | Inr new_bytes \<Rightarrow>
               (let warning =
                      (if length orig_bytes \<noteq> length new_bytes
                       then [WarningLength (length new_bytes) (length orig_bytes)]
                       else [])
                in case open_rb_plus fs filename of
                     None \<Rightarrow>
                       \<lparr>status = IOFailure,
                        printed = [Processing filename] @ warning
                                  @ [ErrorCouldNotOpen, Newline],
                        trace = [Open filename], files = fs\<rparr>
                   | Some f0 \<Rightarrow>
                      (let f1 = seek offset f0;
                           (current_data, f2) = read (length orig_bytes) f1
                       in if current_data = orig_bytes then
                            (let f3 = seek offset f2;
                                 f4 = write_bytes new_bytes f3
                             in \<lparr>status = Applied,
                                 printed = [Processing filename] @ warning
                                           @ [OkOriginalMatch offset,
                                              SuccessPatched filename, Newline],
                                 trace = log f4, files = close fs filename f4\<rparr>)
                          else if current_data = new_bytes then
                            \<lparr>status = AlreadyApplied,
                             printed = [Processing filename] @ warning
                                       @ [InfoAlreadyPatched, Newline],
                             trace = log f2, files = close fs filename f2\<rparr>
                          else
                            \<lparr>status = Mismatch,
                             printed = [Processing filename] @ warning
                                       @ [FailByteMismatch offset,
                                          Expected (take 30 (hexlify orig_bytes) @ ''...''),
                                          Found (take 30 (hexlify current_data) @ ''...''),
                                          Aborting, Newline],
                             trace = log f2, files = close fs filename f2\<rparr>))))"

subsection \<open>Vocabulary of the properties\<close>

definition decoded :: "string \<Rightarrow> string \<Rightarrow> (bytes \<times> bytes) option" where
  \<comment> \<open>the two byte strings of a call, when both hexadecimal texts decode\<close>
  "decoded original_hex new_hex =
     (case unhexlify (replace_spaces original_hex) of
        Inl _ \<Rightarrow> None
      | Inr orig \<Rightarrow>
          (case unhexlify (replace_spaces new_hex) of
             Inl _ \<Rightarrow> None
           | Inr new \<Rightarrow> Some (orig, new)))"

definition pre_image :: "bytes \<Rightarrow> nat \<Rightarrow> nat \<Rightarrow> bytes" where
  \<comment> \<open>the bytes a file holds in the window of n bytes at offset, as a read returns them\<close>
  "pre_image content offset n = take n (drop offset content)"


definition file_length :: "filesystem \<Rightarrow> string \<Rightarrow> nat option" where
  "file_length fs p =
     (case fs p of Some (Regular content) \<Rightarrow> Some (length content) | _ \<Rightarrow> None)"

definition one_file :: "string \<Rightarrow> bytes \<Rightarrow> filesystem" where
  \<comment> \<open>a file system that holds one regular file\<close>
  "one_file p content = Map.empty(p \<mapsto> Regular content)"



definition ascii_upper :: "char \<Rightarrow> char" where
  \<comment> \<open>\<^verbatim>\<open>str.upper\<close> on an ASCII character\<close>
  "ascii_upper c =
     (let n = (of_char c :: nat) in if 97 \<le> n \<and> n \<le> 122 then char_of (n - 32) else c)"

definition ascii_lower :: "char \<Rightarrow> char" where
  \<comment> \<open>\<^verbatim>\<open>str.lower\<close> on an ASCII character\<close>
  "ascii_lower c =
     (let n = (of_char c :: nat) in if 65 \<le> n \<and> n \<le> 90 then char_of (n + 32) else c)"


section \<open>Properties\<close>

subsection \<open>The outcome of a call, case by case\<close>

lemmas io_defs = path_exists_def open_rb_plus_def seek_def read_def write_bytes_def close_def

lemma respawn_status_regular:
  assumes "fs filename = Some (Regular content)"
    and "unhexlify (replace_spaces original_hex) = Inr orig"
    and "unhexlify (replace_spaces new_hex) = Inr new"
  shows "status (respawn_patch_file fs filename offset original_hex new_hex) =
           (if pre_image content offset (length orig) = orig then Applied
            else if pre_image content offset (length orig) = new then AlreadyApplied
            else Mismatch)"
  using assms by (simp add: respawn_patch_file_def io_defs pre_image_def Let_def)

lemma respawn_trace_regular:
  assumes "fs filename = Some (Regular content)"
    and "unhexlify (replace_spaces original_hex) = Inr orig"
    and "unhexlify (replace_spaces new_hex) = Inr new"
  shows "trace (respawn_patch_file fs filename offset original_hex new_hex) =
           [Open filename, Seek offset, Read (length orig)]
           @ (if pre_image content offset (length orig) = orig
              then [Seek offset, Write new] else [])"
  using assms by (simp add: respawn_patch_file_def io_defs pre_image_def Let_def)

lemma respawn_files_regular:
  assumes "fs filename = Some (Regular content)"
    and "unhexlify (replace_spaces original_hex) = Inr orig"
    and "unhexlify (replace_spaces new_hex) = Inr new"
  shows "files (respawn_patch_file fs filename offset original_hex new_hex) =
           (if pre_image content offset (length orig) = orig
            then fs(filename \<mapsto> Regular (write_at content offset new)) else fs)"
  using assms
  by (auto simp add: respawn_patch_file_def io_defs pre_image_def Let_def fun_upd_idem_iff)


lemma flags_map_status: 
  "status (flags_map_patch_file fs filename offset original_hex new_hex) =
   status (respawn_patch_file fs filename offset original_hex new_hex)"
  by (simp add: respawn_patch_file_def flags_map_patch_file_def Let_def
      split: sum.splits py_exception.splits option.splits prod.splits)

lemma flags_map_trace: 
  "trace (flags_map_patch_file fs filename offset original_hex new_hex) =
   trace (respawn_patch_file fs filename offset original_hex new_hex)"
  by (simp add: respawn_patch_file_def flags_map_patch_file_def Let_def
      split: sum.splits py_exception.splits option.splits prod.splits)

lemma flags_map_files: 
  "files (flags_map_patch_file fs filename offset original_hex new_hex) =
   files (respawn_patch_file fs filename offset original_hex new_hex)"
  by (simp add: respawn_patch_file_def flags_map_patch_file_def Let_def
      split: sum.splits py_exception.splits option.splits prod.splits)

lemma decoded_Some:
  "decoded original_hex new_hex = Some (orig, new) \<longleftrightarrow>
     unhexlify (replace_spaces original_hex) = Inr orig
     \<and> unhexlify (replace_spaces new_hex) = Inr new"
  by (simp add: decoded_def split: sum.splits)

lemma respawn_missing:
  assumes "fs filename = None"
  shows "status (respawn_patch_file fs filename offset original_hex new_hex) = NotFound"
    and "trace (respawn_patch_file fs filename offset original_hex new_hex) = []"
    and "files (respawn_patch_file fs filename offset original_hex new_hex) = fs"
  using assms by (simp_all add: respawn_patch_file_def path_exists_def)

lemma respawn_undecoded:
  assumes "decoded original_hex new_hex = None"
  shows "status (respawn_patch_file fs filename offset original_hex new_hex)
           \<in> {NotFound, MalformedHex, UncaughtValueError}"
    and "trace (respawn_patch_file fs filename offset original_hex new_hex) = []"
    and "files (respawn_patch_file fs filename offset original_hex new_hex) = fs"
  using assms
  by (simp_all add: respawn_patch_file_def decoded_def
      split: sum.splits py_exception.splits)

lemma respawn_unopenable:
  assumes "fs filename = Some Unopenable"
    and "decoded original_hex new_hex = Some (orig, new)"
  shows "status (respawn_patch_file fs filename offset original_hex new_hex) = IOFailure"
    and "trace (respawn_patch_file fs filename offset original_hex new_hex) = [Open filename]"
    and "files (respawn_patch_file fs filename offset original_hex new_hex) = fs"
  using assms
  by (simp_all add: respawn_patch_file_def decoded_Some io_defs Let_def)

lemma respawn_cases [case_names missing undecoded unopenable regular]:
  obtains "fs filename = None"
  | "decoded original_hex new_hex = None"
  | orig new where "fs filename = Some Unopenable"
      and "decoded original_hex new_hex = Some (orig, new)"
  | content orig new where "fs filename = Some (Regular content)"
      and "decoded original_hex new_hex = Some (orig, new)"
proof (cases "fs filename")
  case None
  then show ?thesis using that by simp
next
  case (Some nd)
  show ?thesis
  proof (cases "decoded original_hex new_hex")
    case None
    then show ?thesis using that by simp
  next
    case (Some pair)
    with \<open>fs filename = Some nd\<close> show ?thesis
      using that by (cases nd; cases pair) auto
  qed
qed

lemma respawn_files_unchanged:
  assumes "status (respawn_patch_file fs filename offset original_hex new_hex) \<noteq> Applied"
  shows "files (respawn_patch_file fs filename offset original_hex new_hex) = fs"
proof (cases rule: respawn_cases[where fs=fs and filename=filename and original_hex=original_hex and new_hex=new_hex])
  case missing
  then show ?thesis by (simp add: respawn_missing)
next
  case undecoded
  then show ?thesis by (simp add: respawn_undecoded)
next
  case (unopenable orig new)
  then show ?thesis by (simp add: respawn_unopenable)
next
  case (regular content orig new)
  then show ?thesis
    using assms
    by (simp add: decoded_Some respawn_files_regular respawn_status_regular split: if_splits)
qed

lemma respawn_no_write:
  assumes "status (respawn_patch_file fs filename offset original_hex new_hex) \<noteq> Applied"
  shows "Write bs \<notin> set (trace (respawn_patch_file fs filename offset original_hex new_hex))"
proof (cases rule: respawn_cases[where fs=fs and filename=filename and original_hex=original_hex and new_hex=new_hex])
  case missing
  then show ?thesis by (simp add: respawn_missing)
next
  case undecoded
  then show ?thesis by (simp add: respawn_undecoded)
next
  case (unopenable orig new)
  then show ?thesis by (simp add: respawn_unopenable)
next
  case (regular content orig new)
  then show ?thesis
    using assms
    by (simp add: decoded_Some respawn_trace_regular respawn_status_regular split: if_splits)
qed

lemma respawn_applied_iff:
  "status (respawn_patch_file fs filename offset original_hex new_hex) = Applied \<longleftrightarrow>
   (\<exists>content orig new. fs filename = Some (Regular content)
      \<and> decoded original_hex new_hex = Some (orig, new)
      \<and> pre_image content offset (length orig) = orig)"
proof (cases rule: respawn_cases[where fs=fs and filename=filename and original_hex=original_hex and new_hex=new_hex])
  case missing
  then show ?thesis by (simp add: respawn_missing)
next
  case undecoded
  then show ?thesis using respawn_undecoded(1)[OF undecoded, of fs filename offset] by auto
next
  case (unopenable orig new)
  then show ?thesis by (simp add: respawn_unopenable)
next
  case (regular content orig new)
  then show ?thesis
    by (simp add: decoded_Some respawn_status_regular)
qed



lemma length_write_at_inside:
  "p + length bs \<le> length content \<Longrightarrow> length (write_at content p bs) = length content"
  by (auto simp add: write_at_def)

lemma pre_image_full:
  "pre_image content offset n = orig \<Longrightarrow> length orig = n \<Longrightarrow> n \<noteq> 0 \<Longrightarrow> offset + n \<le> length content"
  by (auto simp add: pre_image_def)


lemma either_script:
  assumes "pf = respawn_patch_file \<or> pf = flags_map_patch_file"
  shows "status (pf fs filename offset original_hex new_hex) =
           status (respawn_patch_file fs filename offset original_hex new_hex)"
    and "trace (pf fs filename offset original_hex new_hex) =
           trace (respawn_patch_file fs filename offset original_hex new_hex)"
    and "files (pf fs filename offset original_hex new_hex) =
           files (respawn_patch_file fs filename offset original_hex new_hex)"
  using assms by (auto simp add: flags_map_status flags_map_trace flags_map_files)




lemmas hex_defs = decoded_def unhexlify_def replace_spaces_def is_ascii_def hex_digit_value_def






subsection \<open>C1: the three-way classification\<close>




subsection \<open>C2: write exclusivity\<close>

lemma respawn_fixpoint:
  assumes "files (respawn_patch_file fs filename offset original_hex new_hex) = fs"
  shows "((\<lambda>s. files (respawn_patch_file s filename offset original_hex new_hex)) ^^ n) fs = fs"
  using assms by (induction n) simp_all

text \<open>
  C2: a call writes to the file, or leaves the file system different, only when the
  target is a regular file, both texts decode, and the bytes read at
  \<open>[offset, offset + len(original))\<close> equal \<open>original\<close>. A file whose window equals
  neither byte string gets \<open>Mismatch\<close>, no write, and is unchanged after any number of
  calls.
\<close>

theorem C2_write_exclusivity:
  assumes "out = respawn_patch_file fs filename offset original_hex new_hex"
  shows "((\<exists>bs. Write bs \<in> set (trace out)) \<or> files out \<noteq> fs \<longrightarrow>
            (\<exists>content orig new. fs filename = Some (Regular content)
               \<and> decoded original_hex new_hex = Some (orig, new)
               \<and> pre_image content offset (length orig) = orig))
       \<and> (\<forall>content orig new. fs filename = Some (Regular content)
               \<and> decoded original_hex new_hex = Some (orig, new)
               \<and> pre_image content offset (length orig) \<noteq> orig
               \<and> pre_image content offset (length orig) \<noteq> new \<longrightarrow>
             status out = Mismatch
             \<and> (\<forall>bs. Write bs \<notin> set (trace out))
             \<and> files out = fs
             \<and> (\<forall>n. ((\<lambda>s. files (respawn_patch_file s filename offset original_hex new_hex))
                        ^^ n) fs = fs))"
proof (intro conjI impI allI)
  assume "(\<exists>bs. Write bs \<in> set (trace out)) \<or> files out \<noteq> fs"
  then have "status out = Applied"
    unfolding assms using respawn_no_write respawn_files_unchanged by blast
  then show "\<exists>content orig new. fs filename = Some (Regular content)
               \<and> decoded original_hex new_hex = Some (orig, new)
               \<and> pre_image content offset (length orig) = orig"
    unfolding assms by (simp add: respawn_applied_iff)
next
  fix content orig new
  assume h: "fs filename = Some (Regular content)
               \<and> decoded original_hex new_hex = Some (orig, new)
               \<and> pre_image content offset (length orig) \<noteq> orig
               \<and> pre_image content offset (length orig) \<noteq> new"
  then have d: "unhexlify (replace_spaces original_hex) = Inr orig"
    "unhexlify (replace_spaces new_hex) = Inr new"
    by (simp_all add: decoded_Some)
  from h have f: "fs filename = Some (Regular content)" by simp
  show st: "status out = Mismatch"
    unfolding assms using h
    by (simp add: respawn_status_regular[where fs=fs and filename=filename, OF f d])
  then have na: "status (respawn_patch_file fs filename offset original_hex new_hex) \<noteq> Applied"
    unfolding assms by simp
  show "Write bs \<notin> set (trace out)" for bs
    unfolding assms using respawn_no_write[OF na] .
  show "files out = fs"
    unfolding assms using respawn_files_unchanged[OF na] .
  show "((\<lambda>s. files (respawn_patch_file s filename offset original_hex new_hex)) ^^ n) fs = fs" for n
    using respawn_fixpoint[OF respawn_files_unchanged[OF na]] .
qed

theorem C2_write_exclusivity_witness:
  "status (respawn_patch_file (one_file ''bf'' [0, 0, 0]) ''bf'' 1 ''50 56'' ''56 50'') = Mismatch
   \<and> files (respawn_patch_file (one_file ''bf'' [0, 0, 0]) ''bf'' 1 ''50 56'' ''56 50'')
       = one_file ''bf'' [0, 0, 0]"
proof -
  have d: "decoded ''50 56'' ''56 50'' = Some ([0x50, 0x56], [0x56, 0x50])"
    by (simp add: hex_defs)
  have f: "one_file ''bf'' [0, 0, 0] ''bf'' = Some (Regular [0, 0, 0])"
    by (simp add: one_file_def)
  have p: "pre_image [0, 0, 0] 1 (length [0x50, 0x56 :: byte]) \<noteq> [0x50, 0x56]"
    "pre_image [0, 0, 0] 1 (length [0x50, 0x56 :: byte]) \<noteq> [0x56, 0x50]"
    by (simp_all add: pre_image_def)
  show ?thesis
    using C2_write_exclusivity[where fs="one_file ''bf'' [0, 0, 0]" and filename="''bf''"
        and offset=1 and original_hex="''50 56''" and new_hex="''56 50''", OF refl] d f p
    by blast
qed

subsection \<open>C3: idempotence\<close>





subsection \<open>C4: frame\<close>



subsection \<open>C5: short reads\<close>




subsection \<open>C6: a missing file\<close>

text \<open>
  C6: when the target path does not exist the call ends in \<open>NotFound\<close>, whatever the
  two texts are; it opens no file, performs no file operation, leaves the file system
  as it was and raises nothing.
\<close>

theorem C6_missing_file:
  assumes "out = respawn_patch_file fs filename offset original_hex new_hex"
    and "\<not> path_exists fs filename"
  shows "status out = NotFound \<and> trace out = [] \<and> files out = fs
       \<and> printed out = [Processing filename, ErrorFileNotFound filename]"
  using assms by (simp add: respawn_patch_file_def)

theorem C6_missing_file_witness:
  "status (respawn_patch_file (one_file ''bf'' [7]) ''cf'' 1 ''50 56'' ''zz'') = NotFound
   \<and> files (respawn_patch_file (one_file ''bf'' [7]) ''cf'' 1 ''50 56'' ''zz'') = one_file ''bf'' [7]"
proof -
  have "\<not> path_exists (one_file ''bf'' [7]) ''cf''"
    by (simp add: path_exists_def one_file_def)
  then show ?thesis
    using C6_missing_file[where fs="one_file ''bf'' [7]" and filename="''cf''", OF refl]
    by simp
qed

subsection \<open>C7: the length warning\<close>



subsection \<open>C8: hexadecimal decoding\<close>

lemma char_eq_code: "c = d \<longleftrightarrow> (of_char c :: nat) = of_char d"
  by simp

lemma of_char_bound: "(of_char c :: nat) < 256"
  by simp


lemma of_char_char_of_small: "n < 256 \<Longrightarrow> (of_char (char_of n) :: nat) = n"
  by simp

lemma hex_digit_value_upper: "hex_digit_value (ascii_upper c) = hex_digit_value c"
  unfolding ascii_upper_def hex_digit_value_def Let_def
  using of_char_bound[of c]
  by (auto simp add: of_char_char_of_small)


lemma hex_digit_value_lower: "hex_digit_value (ascii_lower c) = hex_digit_value c"
  unfolding ascii_lower_def hex_digit_value_def Let_def
  using of_char_bound[of c]
  by (auto simp add: of_char_char_of_small)

lemma is_ascii_upper: "is_ascii (ascii_upper c) = is_ascii c"
  unfolding ascii_upper_def is_ascii_def Let_def
  using of_char_bound[of c]
  by (auto simp add: of_char_char_of_small)

lemma is_ascii_lower: "is_ascii (ascii_lower c) = is_ascii c"
  unfolding ascii_lower_def is_ascii_def Let_def
  using of_char_bound[of c]
  by (auto simp add: of_char_char_of_small)

lemma upper_space: "ascii_upper c = CHR '' '' \<longleftrightarrow> c = CHR '' ''"
  unfolding ascii_upper_def Let_def
  using of_char_bound[of c]
  by (auto simp add: char_eq_code[of _ "CHR '' ''"] of_char_char_of_small)

lemma lower_space: "ascii_lower c = CHR '' '' \<longleftrightarrow> c = CHR '' ''"
  unfolding ascii_lower_def Let_def
  using of_char_bound[of c]
  by (auto simp add: char_eq_code[of _ "CHR '' ''"] of_char_char_of_small)

lemma replace_spaces_upper:
  "replace_spaces (map ascii_upper s) = map ascii_upper (replace_spaces s)"
  by (induction s) (simp_all add: replace_spaces_def upper_space)

lemma replace_spaces_lower:
  "replace_spaces (map ascii_lower s) = map ascii_lower (replace_spaces s)"
  by (induction s) (simp_all add: replace_spaces_def lower_space)

lemma a2b_hex_upper: "a2b_hex (map ascii_upper s) = a2b_hex s"
  by (induction s rule: a2b_hex.induct) (simp_all add: hex_digit_value_upper split: option.splits)

lemma a2b_hex_lower: "a2b_hex (map ascii_lower s) = a2b_hex s"
  by (induction s rule: a2b_hex.induct) (simp_all add: hex_digit_value_lower split: option.splits)

lemma unhexlify_upper: "unhexlify (map ascii_upper s) = unhexlify s"
  by (simp add: unhexlify_def a2b_hex_upper list_all_iff is_ascii_upper)

lemma unhexlify_lower: "unhexlify (map ascii_lower s) = unhexlify s"
  by (simp add: unhexlify_def a2b_hex_lower list_all_iff is_ascii_lower)

lemma decoded_upper:
  "decoded (map ascii_upper original_hex) (map ascii_upper new_hex) = decoded original_hex new_hex"
  by (simp add: decoded_def replace_spaces_upper unhexlify_upper cong: sum.case_cong)

lemma decoded_lower:
  "decoded (map ascii_lower original_hex) (map ascii_lower new_hex) = decoded original_hex new_hex"
  by (simp add: decoded_def replace_spaces_lower unhexlify_lower cong: sum.case_cong)
















text \<open>
  Outside ASCII the decoding does not end in the branch for malformed text: the
  \<^verbatim>\<open>ValueError\<close> that \<^verbatim>\<open>unhexlify\<close> raises there is not a \<^verbatim>\<open>binascii.Error\<close>,
  the handler does not catch it, and it leaves \<open>patch_file\<close> as an exception.
\<close>

lemma respawn_non_ascii_hex:
  "status (respawn_patch_file (one_file ''bf'' [0x90]) ''bf'' 0 [CHR 0xE9, CHR ''0''] ''00'')
     = UncaughtValueError"
  by (simp add: respawn_patch_file_def one_file_def path_exists_def hex_defs)

subsection \<open>C9: the two scripts\<close>

text \<open>
  C9: on every input and file system the \<open>patch_file\<close> of
  \<^verbatim>\<open>patch_ctf_flags_map.py\<close> ends in the same branch as the one of
  \<^verbatim>\<open>patch_ctf_respawn.py\<close>, after the same file operations, with the same file
  system. (They differ in the text printed on a mismatch, which the first cuts to 30
  characters.)
\<close>

theorem C9_scripts_agree:
  "status (flags_map_patch_file fs filename offset original_hex new_hex)
     = status (respawn_patch_file fs filename offset original_hex new_hex)
   \<and> files (flags_map_patch_file fs filename offset original_hex new_hex)
     = files (respawn_patch_file fs filename offset original_hex new_hex)
   \<and> trace (flags_map_patch_file fs filename offset original_hex new_hex)
     = trace (respawn_patch_file fs filename offset original_hex new_hex)"
  by (simp add: flags_map_status flags_map_files flags_map_trace)

theorem C9_scripts_agree_witness:
  "status (flags_map_patch_file (one_file ''bf'' [7, 0, 0]) ''bf'' 1 ''50 56'' ''56 50'') = Mismatch
   \<and> printed (flags_map_patch_file (one_file ''bf'' [7, 0, 0]) ''bf'' 1 ''50 56'' ''56 50'')
       \<noteq> printed (respawn_patch_file (one_file ''bf'' [7, 0, 0]) ''bf'' 1 ''50 56'' ''56 50'')"
proof -
  have "status (respawn_patch_file (one_file ''bf'' [7, 0, 0]) ''bf'' 1 ''50 56'' ''56 50'')
          = Mismatch"
    by (simp add: respawn_patch_file_def one_file_def io_defs hex_defs)
  moreover have "printed (flags_map_patch_file (one_file ''bf'' [7, 0, 0]) ''bf'' 1 ''50 56'' ''56 50'')
       \<noteq> printed (respawn_patch_file (one_file ''bf'' [7, 0, 0]) ''bf'' 1 ''50 56'' ''56 50'')"
    by (simp add: respawn_patch_file_def flags_map_patch_file_def one_file_def io_defs hex_defs
        hexlify_def hex_char_def)
  ultimately show ?thesis
    using C9_scripts_agree[of "one_file ''bf'' [7, 0, 0]" "''bf''" 1 "''50 56''" "''56 50''"]
    by simp
qed

subsection \<open>C10: the length of the file\<close>

text \<open>
  C10: with byte strings of equal length, no call of either script changes the length of
  any file. A call that ends in \<open>Applied\<close> has read all \<open>len(original)\<close> bytes of the
  window, so the write of \<open>len(replacement)\<close> bytes at \<open>offset\<close> ends within the file.
\<close>

theorem C10_length_preserved:
  assumes "pf = respawn_patch_file \<or> pf = flags_map_patch_file"
    and "out = pf fs filename offset original_hex new_hex"
    and "decoded original_hex new_hex = Some (orig, new)"
    and "length orig = length new"
  shows "(\<forall>p. file_length (files out) p = file_length fs p)
       \<and> (status out = Applied \<longrightarrow>
            (\<exists>content. fs filename = Some (Regular content)
               \<and> length (pre_image content offset (length orig)) = length orig
               \<and> (orig \<noteq> [] \<longrightarrow> offset + length new \<le> length content)))"
proof (cases "status (respawn_patch_file fs filename offset original_hex new_hex) = Applied")
  case False
  then show ?thesis
    unfolding assms(2) either_script[OF assms(1)]
    by (simp add: respawn_files_unchanged)
next
  case True
  then obtain content orig' new' where f: "fs filename = Some (Regular content)"
    and dd: "decoded original_hex new_hex = Some (orig', new')"
    and p': "pre_image content offset (length orig') = orig'"
    by (auto simp add: respawn_applied_iff)
  with assms(3) have p: "pre_image content offset (length orig) = orig" by simp
  from assms(3) have d: "unhexlify (replace_spaces original_hex) = Inr orig"
    "unhexlify (replace_spaces new_hex) = Inr new"
    by (simp_all add: decoded_Some)
  have fl: "files (respawn_patch_file fs filename offset original_hex new_hex)
              = fs(filename \<mapsto> Regular (write_at content offset new))"
    using p by (simp add: respawn_files_regular[where fs=fs and filename=filename, OF f d])
  have inside: "offset + length new \<le> length content" if "orig \<noteq> []"
  proof -
    from that have "length orig \<noteq> 0" by simp
    from pre_image_full[OF p refl this] show ?thesis using assms(4) by simp
  qed
  have len: "length (write_at content offset new) = length content"
  proof (cases "new = []")
    case True
    then show ?thesis by (simp add: write_at_def)
  next
    case False
    then have "orig \<noteq> []" using assms(4) by auto
    then show ?thesis using inside by (simp add: length_write_at_inside)
  qed
  have "file_length (files (respawn_patch_file fs filename offset original_hex new_hex)) p
          = file_length fs p" for p
    unfolding fl using f len by (simp add: file_length_def)
  moreover have "length (pre_image content offset (length orig)) = length orig"
    using p by simp
  ultimately show ?thesis
    unfolding assms(2) either_script[OF assms(1)]
    using f inside by auto
qed

theorem C10_length_preserved_witness:
  "file_length
     (files (flags_map_patch_file (one_file ''bf'' [7, 0x50, 0x56, 9]) ''bf'' 1 ''50 56'' ''56 50''))
     ''bf'' = Some 4
   \<and> status (flags_map_patch_file (one_file ''bf'' [7, 0x50, 0x56, 9]) ''bf'' 1 ''50 56'' ''56 50'')
       = Applied"
proof -
  have d: "decoded ''50 56'' ''56 50'' = Some ([0x50, 0x56], [0x56, 0x50])"
    by (simp add: hex_defs)
  have l: "length [0x50, 0x56 :: byte] = length [0x56, 0x50 :: byte]" by simp
  have a: "status (flags_map_patch_file (one_file ''bf'' [7, 0x50, 0x56, 9]) ''bf'' 1
             ''50 56'' ''56 50'') = Applied"
    by (simp add: flags_map_patch_file_def one_file_def io_defs hex_defs write_at_def)
  show ?thesis
    using C10_length_preserved[where pf=flags_map_patch_file
        and fs="one_file ''bf'' [7, 0x50, 0x56, 9]" and filename="''bf''" and offset=1
        and original_hex="''50 56''" and new_hex="''56 50''", OF _ refl d l] a
    by (simp add: file_length_def one_file_def)
qed

end
